theory Spec2Isabelle
  imports Main
begin

section \<open>The logging backend as chronolog uses it\<close>

text \<open>
  chronolog is a thin layer over Python's \<^verbatim>\<open>logging\<close> package. The backend is not
  part of the repository; the model keeps of it exactly what \<^verbatim>\<open>logger.py\<close> touches:
  the calls a named logger (a channel) receives, the handlers, format and level of the
  root logger, the registry of named loggers, and what \<^verbatim>\<open>print\<close> wrote.
\<close>

text \<open>The six methods of \<^verbatim>\<open>logging.Logger\<close> that \<^verbatim>\<open>PrefixedLogger\<close> calls.\<close>

datatype log_method = Debug | Info | Warning | Error | Critical | Exception

text \<open>
  One call \<^verbatim>\<open>logging.getLogger(name).<method>(msg, *args, **kwargs)\<close>: the channel it
  is made on, the method, the message text, and the positional and keyword arguments.
\<close>

record 'a log_call =
  lc_channel :: string
  lc_method :: log_method
  lc_msg :: string
  lc_args :: "'a list"
  lc_kwargs :: "(string \<times> 'a) list"

text \<open>The calls the backend has received so far, oldest first.\<close>

type_synonym 'a channel_log = "'a log_call list"

definition emit :: "string \<Rightarrow> log_method \<Rightarrow> string \<Rightarrow> 'a list \<Rightarrow> (string \<times> 'a) list
    \<Rightarrow> 'a channel_log \<Rightarrow> 'a channel_log" where
  "emit chan m msg args kwargs out =
     out @ [\<lparr>lc_channel = chan, lc_method = m, lc_msg = msg, lc_args = args,
             lc_kwargs = kwargs\<rparr>]"

section \<open>PrefixedLogger\<close>

text \<open>
  The instance attributes of \<^verbatim>\<open>PrefixedLogger\<close>: \<^verbatim>\<open>self.logger\<close> (the logger
  object, identified by its name), \<^verbatim>\<open>self._prefix\<close> and the dict
  \<^verbatim>\<open>self._start_times\<close>. The type \<open>'t\<close> is that of the values of \<^verbatim>\<open>time.time()\<close>.
\<close>

record 't prefixed_logger =
  logger :: string
  prefix :: string
  start_times :: "string \<rightharpoonup> 't"

text \<open>
  \<^verbatim>\<open>prefix or "no-prefix"\<close>: the argument is \<^verbatim>\<open>None\<close> (also when omitted) or a
  string, and the empty string is falsy.
\<close>

definition or_no_prefix :: "string option \<Rightarrow> string" where
  "or_no_prefix p = (case p of None \<Rightarrow> ''no-prefix''
                     | Some s \<Rightarrow> if s = [] then ''no-prefix'' else s)"

definition format_message :: "'t prefixed_logger \<Rightarrow> string \<Rightarrow> string" where
  "format_message self message = ''['' @ prefix self @ ''] '' @ message"

definition update_prefix :: "string option \<Rightarrow> 't prefixed_logger \<Rightarrow> 't prefixed_logger" where
  "update_prefix p self = self\<lparr>prefix := or_no_prefix p\<rparr>"

definition info :: "string \<Rightarrow> 'a list \<Rightarrow> (string \<times> 'a) list \<Rightarrow> 't prefixed_logger
    \<Rightarrow> 'a channel_log \<Rightarrow> 'a channel_log" where
  "info message args kwargs self out =
     emit (logger self) Info (format_message self message) args kwargs out"

definition debug :: "string \<Rightarrow> 'a list \<Rightarrow> (string \<times> 'a) list \<Rightarrow> 't prefixed_logger
    \<Rightarrow> 'a channel_log \<Rightarrow> 'a channel_log" where
  "debug message args kwargs self out =
     emit (logger self) Debug (format_message self message) args kwargs out"

definition warning :: "string \<Rightarrow> 'a list \<Rightarrow> (string \<times> 'a) list \<Rightarrow> 't prefixed_logger
    \<Rightarrow> 'a channel_log \<Rightarrow> 'a channel_log" where
  "warning message args kwargs self out =
     emit (logger self) Warning (format_message self message) args kwargs out"

definition error :: "string \<Rightarrow> 'a list \<Rightarrow> (string \<times> 'a) list \<Rightarrow> 't prefixed_logger
    \<Rightarrow> 'a channel_log \<Rightarrow> 'a channel_log" where
  "error message args kwargs self out =
     emit (logger self) Error (format_message self message) args kwargs out"

definition critical :: "string \<Rightarrow> 'a list \<Rightarrow> (string \<times> 'a) list \<Rightarrow> 't prefixed_logger
    \<Rightarrow> 'a channel_log \<Rightarrow> 'a channel_log" where
  "critical message args kwargs self out =
     emit (logger self) Critical (format_message self message) args kwargs out"

definition exception :: "string \<Rightarrow> 'a list \<Rightarrow> (string \<times> 'a) list \<Rightarrow> 't prefixed_logger
    \<Rightarrow> 'a channel_log \<Rightarrow> 'a channel_log" where
  "exception message args kwargs self out =
     emit (logger self) Exception (format_message self message) args kwargs out"

text \<open>
  \<^verbatim>\<open>log_start\<close> and \<^verbatim>\<open>log_end\<close> read the clock once; \<open>now\<close> is the value that
  \<^verbatim>\<open>time.time()\<close> returns at that call. \<open>fmt2f\<close> is Python's \<^verbatim>\<open>{:.2f}\<close> on such a
  value; floating-point formatting belongs to the platform and is a parameter here.
\<close>

definition log_start :: "'t \<Rightarrow> string \<Rightarrow> string \<Rightarrow> 'a list \<Rightarrow> (string \<times> 'a) list
    \<Rightarrow> 't prefixed_logger \<Rightarrow> 'a channel_log \<Rightarrow> 't prefixed_logger \<times> 'a channel_log" where
  "log_start now key message args kwargs self out =
     (let self1 = self\<lparr>start_times := (start_times self)(key \<mapsto> now)\<rparr>;
          beacon_message = ''(BEACON - ['' @ key @ ''] - START) '' @ message
      in (self1, info beacon_message args kwargs self1 out))"

definition log_end :: "('t \<Rightarrow> string) \<Rightarrow> 't::minus \<Rightarrow> string \<Rightarrow> string \<Rightarrow> 'a list
    \<Rightarrow> (string \<times> 'a) list \<Rightarrow> 't prefixed_logger \<Rightarrow> 'a channel_log
    \<Rightarrow> 't prefixed_logger \<times> 'a channel_log" where
  "log_end fmt2f now key message args kwargs self out =
     (let start_time = start_times self key;
          self1 = self\<lparr>start_times := (start_times self)(key := None)\<rparr>
      in case start_time of
           None \<Rightarrow>
             (let out1 = warning (''log_end called for key '' @ [CHR 0x27] @ key @ [CHR 0x27]
                                   @ '' without a corresponding log_start.'') [] [] self1 out;
                  beacon_message = ''(BEACON - ['' @ key @ ''] - END (Elapsed time N/A s)) ''
                                   @ message
              in (self1, info beacon_message args kwargs self1 out1))
         | Some t0 \<Rightarrow>
             (let elapsed_time = now - t0;
                  beacon_message = ''(BEACON - ['' @ key @ ''] - END (Elapsed time ''
                                   @ fmt2f elapsed_time @ '' s)) '' @ message @ '' ''
              in (self1, info beacon_message args kwargs self1 out)))"

section \<open>The process and the platform\<close>

datatype handler =
    StreamHandler
  | CloudLoggingHandler string
  | RotatingFileHandler string nat nat

datatype level = NOTSET | DEBUG | INFO | WARNING | ERROR | CRITICAL

text \<open>
  The process-wide state that \<^verbatim>\<open>logger.py\<close> reads and writes: the module global
  \<^verbatim>\<open>_logging_configured\<close>, the root logger's handlers, the format given to them and
  the root level (what \<^verbatim>\<open>logging.basicConfig\<close> sets), the names registered by
  \<^verbatim>\<open>logging.getLogger\<close>, and the lines written by \<^verbatim>\<open>print\<close>.
\<close>

record process =
  logging_configured :: bool
  root_handlers :: "handler list"
  root_format :: "string option"
  root_level :: level
  logger_dict :: "string set"
  stdout :: "string list"

text \<open>An instance of Python's class \<^verbatim>\<open>Exception\<close>, with its \<^verbatim>\<open>str()\<close>.\<close>

datatype py_exception = PyException string

fun str :: "py_exception \<Rightarrow> string" where
  "str (PyException s) = s"

text \<open>How \<^verbatim>\<open>import google.cloud.logging\<close> ends at module load (lines 15 to 29).\<close>

datatype import_outcome = Imported | ImportError | ImportFailed py_exception

text \<open>
  What the platform decides and the module cannot: the outcome of the optional import,
  the environment variables, and whether each sink constructor returns (\<open>None\<close>) or
  raises an exception (\<open>Some e\<close>) on the arguments it is given.
\<close>

record platform =
  import_gcl :: import_outcome
  environ :: "string \<rightharpoonup> string"
  Client_raises :: "py_exception option"
  CloudLoggingHandler_raises :: "string \<Rightarrow> py_exception option"
  RotatingFileHandler_raises :: "string \<Rightarrow> nat \<Rightarrow> nat \<Rightarrow> py_exception option"

definition GOOGLE_CLOUD_LOGGING_AVAILABLE :: "platform \<Rightarrow> bool" where
  "GOOGLE_CLOUD_LOGGING_AVAILABLE pf = (import_gcl pf = Imported)"

definition LOGGING_FILE_PATH :: "platform \<Rightarrow> string" where
  "LOGGING_FILE_PATH pf =
     (case environ pf ''LOGGING_FILE_PATH'' of None \<Rightarrow> ''logs.txt'' | Some p \<Rightarrow> p)"

definition print :: "string \<Rightarrow> process \<Rightarrow> process" where
  "print line ps = ps\<lparr>stdout := stdout ps @ [line]\<rparr>"

text \<open>
  The state of a process right after \<^verbatim>\<open>logger.py\<close> has been imported: Python's
  defaults for the root logger, the flag false, and the warning of a failed import.
\<close>

definition module_load :: "platform \<Rightarrow> process" where
  "module_load pf =
     (let ps = \<lparr>logging_configured = False, root_handlers = [], root_format = None,
                root_level = WARNING, logger_dict = {}, stdout = []\<rparr>
      in case import_gcl pf of
           Imported \<Rightarrow> ps
         | ImportError \<Rightarrow>
             print (''Warning: google-cloud-logging not installed. ''
                    @ ''Google Cloud Logging functionality will be disabled.'') ps
         | ImportFailed e \<Rightarrow>
             print (''Warning: Failed to import google.cloud.logging: '' @ str e
                    @ ''. Google Cloud Logging functionality will be disabled.'') ps)"

text \<open>\<^verbatim>\<open>logging.getLogger(name)\<close>: the logger of that name, registered if new.\<close>

definition getLogger :: "string \<Rightarrow> process \<Rightarrow> string \<times> process" where
  "getLogger name ps = (name, ps\<lparr>logger_dict := insert name (logger_dict ps)\<rparr>)"

text \<open>
  \<^verbatim>\<open>logging.basicConfig(level=, format=, handlers=, force=True)\<close>: the handlers of the
  root logger are replaced by the given ones, which get the format, and the root level
  is set.
\<close>

definition basicConfig :: "level \<Rightarrow> string \<Rightarrow> handler list \<Rightarrow> process \<Rightarrow> process" where
  "basicConfig lvl fmt hs ps =
     ps\<lparr>root_handlers := hs, root_format := Some fmt, root_level := lvl\<rparr>"

definition Client :: "platform \<Rightarrow> py_exception + unit" where
  "Client pf = (case Client_raises pf of None \<Rightarrow> Inr () | Some e \<Rightarrow> Inl e)"

definition new_CloudLoggingHandler :: "platform \<Rightarrow> unit \<Rightarrow> string \<Rightarrow> py_exception + handler" where
  "new_CloudLoggingHandler pf client name =
     (case CloudLoggingHandler_raises pf name of
        None \<Rightarrow> Inr (CloudLoggingHandler name) | Some e \<Rightarrow> Inl e)"

definition new_RotatingFileHandler :: "platform \<Rightarrow> string \<Rightarrow> nat \<Rightarrow> nat \<Rightarrow> py_exception + handler" where
  "new_RotatingFileHandler pf filename maxBytes backupCount =
     (case RotatingFileHandler_raises pf filename maxBytes backupCount of
        None \<Rightarrow> Inr (RotatingFileHandler filename maxBytes backupCount) | Some e \<Rightarrow> Inl e)"

section \<open>setup_logging and get_prefixed_logger\<close>

text \<open>\<^verbatim>\<open>cloud_logger_name or logger_name\<close>.\<close>

definition or_name :: "string option \<Rightarrow> string \<Rightarrow> string" where
  "or_name c n = (case c of None \<Rightarrow> n | Some s \<Rightarrow> if s = [] then n else s)"

text \<open>The body of the first \<^verbatim>\<open>try\<close> of \<^verbatim>\<open>setup_logging\<close> (lines 135 to 138).\<close>

definition cloud_handler_try :: "platform \<Rightarrow> string \<Rightarrow> py_exception + handler" where
  "cloud_handler_try pf name =
     (case Client pf of Inl e \<Rightarrow> Inl e
      | Inr client \<Rightarrow> new_CloudLoggingHandler pf client name)"

text \<open>
  \<^verbatim>\<open>setup_logging(logger_name, cloud_logger_name, enable_gcloud_logging)\<close>. The result
  is \<open>Inl e\<close> when the call raises \<open>e\<close> and \<open>Inr\<close> of the returned logger and the new
  process state otherwise; each \<^verbatim>\<open>except Exception\<close> is the \<open>Inl\<close> branch of a \<open>case\<close>.
\<close>

definition setup_logging :: "platform \<Rightarrow> string \<Rightarrow> string option \<Rightarrow> bool \<Rightarrow> process
    \<Rightarrow> py_exception + (string \<times> process)" where
  "setup_logging pf logger_name cloud_logger_name enable_gcloud_logging ps =
     (if logging_configured ps then Inr (getLogger logger_name ps)
      else
        let handlers = [StreamHandler];
            (handlers, ps) =
              (if enable_gcloud_logging \<and> GOOGLE_CLOUD_LOGGING_AVAILABLE pf then
                 (case cloud_handler_try pf (or_name cloud_logger_name logger_name) of
                    Inr cloud_handler \<Rightarrow> (handlers @ [cloud_handler], ps)
                  | Inl e \<Rightarrow>
                      (handlers,
                       print (''Warning: Could not initialize Google Cloud Logging. ''
                              @ ''Functionality disabled: '' @ str e) ps))
               else if enable_gcloud_logging \<and> \<not> GOOGLE_CLOUD_LOGGING_AVAILABLE pf then
                 (handlers,
                  print (''Warning: Google Cloud Logging requested but library is not ''
                         @ ''available or failed to import.'') ps)
               else (handlers, ps));
            (handlers, ps) =
              (case new_RotatingFileHandler pf (LOGGING_FILE_PATH pf) (1024 * 1024 * 100) 5 of
                 Inr rotation_handler \<Rightarrow> (handlers @ [rotation_handler], ps)
               | Inl e \<Rightarrow>
                   (handlers, print (''Warning: Could not initialize file logging: '' @ str e) ps));
            ps = basicConfig INFO ''%(asctime)s - %(levelname)s - %(message)s'' handlers ps;
            ps = ps\<lparr>logging_configured := True\<rparr>
        in Inr (getLogger logger_name ps))"

text \<open>
  \<^verbatim>\<open>PrefixedLogger.__init__(logger_name, prefix=None)\<close>: the new instance and the
  process state after the call to \<^verbatim>\<open>logging.getLogger\<close>.
\<close>

definition PrefixedLogger :: "string \<Rightarrow> string option \<Rightarrow> process \<Rightarrow> 't prefixed_logger \<times> process" where
  "PrefixedLogger logger_name p ps =
     (let (lg, ps1) = getLogger logger_name ps
      in (\<lparr>logger = lg, prefix = or_no_prefix p, start_times = Map.empty\<rparr>, ps1))"

text \<open>
  \<^verbatim>\<open>get_prefixed_logger(logger_name, prefix=None, cloud_logger_name=None,
  enable_gcloud_logging=False)\<close>; \<open>None\<close> for the last argument is the omitted one.
\<close>

definition get_prefixed_logger :: "platform \<Rightarrow> string \<Rightarrow> string option \<Rightarrow> string option
    \<Rightarrow> bool option \<Rightarrow> process \<Rightarrow> py_exception + ('t prefixed_logger \<times> process)" where
  "get_prefixed_logger pf logger_name p cloud_logger_name enable_gcloud_logging ps =
     (let enable = (case enable_gcloud_logging of None \<Rightarrow> False | Some b \<Rightarrow> b)
      in case setup_logging pf logger_name cloud_logger_name enable ps of
           Inl e \<Rightarrow> Inl e
         | Inr (lg, ps1) \<Rightarrow> Inr (PrefixedLogger logger_name p ps1))"

section \<open>Fixtures\<close>

text \<open>
  The inputs of the repository's tests, used to evaluate the model: a platform without
  the cloud library on which every constructor returns, a platform on which the cloud
  client and the file handler both raise, the logger of \<^verbatim>\<open>test_beacon_timer_logging\<close>
  with a clock in whole seconds, and the two values of \<^verbatim>\<open>{:.2f}\<close> that are needed.
\<close>

definition test_platform :: platform where
  "test_platform =
     \<lparr>import_gcl = ImportError, environ = Map.empty, Client_raises = None,
      CloudLoggingHandler_raises = (\<lambda>name. None),
      RotatingFileHandler_raises = (\<lambda>filename maxBytes backupCount. None)\<rparr>"

definition failing_platform :: platform where
  "failing_platform =
     \<lparr>import_gcl = Imported, environ = Map.empty,
      Client_raises = Some (PyException ''no credentials''),
      CloudLoggingHandler_raises = (\<lambda>name. None),
      RotatingFileHandler_raises =
        (\<lambda>filename maxBytes backupCount. Some (PyException ''Permission denied''))\<rparr>"

definition beacon_test :: "int prefixed_logger" where
  "beacon_test = \<lparr>logger = ''test_logger'', prefix = ''beacon-test'', start_times = Map.empty\<rparr>"

definition fmt2f_test :: "int \<Rightarrow> string" where
  "fmt2f_test d = (if d = 2 then ''2.00'' else if d = 3 then ''3.00'' else ''?'')"

text \<open>The process after the first call of \<^verbatim>\<open>test_setup_logging_prevents_reconfiguration\<close>.\<close>

definition configured_process :: process where
  "configured_process =
     (case setup_logging test_platform ''first_config_logger'' None False
             (module_load test_platform) of
        Inr (lg, ps) \<Rightarrow> ps
      | Inl e \<Rightarrow> module_load test_platform)"

section \<open>Unfolding the emission operations\<close>

lemmas emit_defs = debug_def info_def warning_def error_def critical_def exception_def emit_def
      format_message_def

section \<open>Leveled emission\<close>

text \<open>
  C1. For every prefix and message, each of \<^verbatim>\<open>debug\<close>, \<^verbatim>\<open>info\<close>, \<^verbatim>\<open>warning\<close>,
  \<^verbatim>\<open>error\<close>, \<^verbatim>\<open>critical\<close> and \<^verbatim>\<open>exception\<close> adds exactly one call to what the
  channel of the instance has received: the method of the same name, the text
  \<^verbatim>\<open>[P] M\<close> with \<open>P\<close> the current prefix, and the positional and keyword arguments
  as they were given. The constructor sets the prefix to \<^verbatim>\<open>no-prefix\<close> when it is given
  \<^verbatim>\<open>None\<close> or the empty string, and to the given string otherwise.
\<close>

theorem leveled_emission_prefixes:
  "debug M args kwargs self out
     = out @ [\<lparr>lc_channel = logger self, lc_method = Debug,
               lc_msg = ''['' @ prefix self @ ''] '' @ M, lc_args = args, lc_kwargs = kwargs\<rparr>]
   \<and> info M args kwargs self out
     = out @ [\<lparr>lc_channel = logger self, lc_method = Info,
               lc_msg = ''['' @ prefix self @ ''] '' @ M, lc_args = args, lc_kwargs = kwargs\<rparr>]
   \<and> warning M args kwargs self out
     = out @ [\<lparr>lc_channel = logger self, lc_method = Warning,
               lc_msg = ''['' @ prefix self @ ''] '' @ M, lc_args = args, lc_kwargs = kwargs\<rparr>]
   \<and> error M args kwargs self out
     = out @ [\<lparr>lc_channel = logger self, lc_method = Error,
               lc_msg = ''['' @ prefix self @ ''] '' @ M, lc_args = args, lc_kwargs = kwargs\<rparr>]
   \<and> critical M args kwargs self out
     = out @ [\<lparr>lc_channel = logger self, lc_method = Critical,
               lc_msg = ''['' @ prefix self @ ''] '' @ M, lc_args = args, lc_kwargs = kwargs\<rparr>]
   \<and> exception M args kwargs self out
     = out @ [\<lparr>lc_channel = logger self, lc_method = Exception,
               lc_msg = ''['' @ prefix self @ ''] '' @ M, lc_args = args, lc_kwargs = kwargs\<rparr>]
   \<and> prefix (fst (PrefixedLogger name None ps :: 't prefixed_logger \<times> process)) = ''no-prefix''
   \<and> prefix (fst (PrefixedLogger name (Some []) ps :: 't prefixed_logger \<times> process)) = ''no-prefix''
   \<and> prefix (fst (PrefixedLogger name (Some (c # cs)) ps :: 't prefixed_logger \<times> process)) = c # cs
   \<and> logger (fst (PrefixedLogger name p ps :: 't prefixed_logger \<times> process)) = name"
  by (simp add: emit_defs PrefixedLogger_def getLogger_def or_no_prefix_def)

section \<open>Beacon timers\<close>

text \<open>
  C2. When \<open>key\<close> is in the timer map with start time \<open>t0\<close>, \<^verbatim>\<open>log_end\<close> removes the
  key and makes exactly one emission, \<^verbatim>\<open>info\<close> of the END beacon with the elapsed time
  \<open>now - t0\<close> in two decimals and a trailing space after the message; the channel
  receives that text behind the prefix of the instance, as every emission does.
\<close>

theorem log_end_present:
  assumes "start_times self key = Some t0"
  shows "log_end fmt2f now key message args kwargs self out =
           (self\<lparr>start_times := (start_times self)(key := None)\<rparr>,
            info (''(BEACON - ['' @ key @ ''] - END (Elapsed time '' @ fmt2f (now - t0)
                  @ '' s)) '' @ message @ '' '') args kwargs self out)
       \<and> snd (log_end fmt2f now key message args kwargs self out) =
           out @ [\<lparr>lc_channel = logger self, lc_method = Info,
                    lc_msg = ''['' @ prefix self @ ''] (BEACON - ['' @ key
                             @ ''] - END (Elapsed time '' @ fmt2f (now - t0) @ '' s)) ''
                             @ message @ '' '',
                    lc_args = args, lc_kwargs = kwargs\<rparr>]
       \<and> start_times (fst (log_end fmt2f now key message args kwargs self out)) key = None"
  using assms by (simp add: log_end_def emit_defs)

theorem log_end_present_witness:
  "start_times (fst (log_start 1000 ''task-1'' ''Starting the task.'' [] [] beacon_test
                      ([] :: nat channel_log))) ''task-1'' = Some 1000
   \<and> snd (log_end fmt2f_test 1002 ''task-1'' ''Finished the task.'' [] []
            (fst (log_start 1000 ''task-1'' ''Starting the task.'' [] [] beacon_test
                   ([] :: nat channel_log))) []) =
       [\<lparr>lc_channel = ''test_logger'', lc_method = Info,
         lc_msg = ''[beacon-test] (BEACON - [task-1] - END (Elapsed time 2.00 s)) Finished the task. '',
         lc_args = [], lc_kwargs = ([] :: (string \<times> nat) list)\<rparr>]"
proof -
  let ?s = "fst (log_start 1000 ''task-1'' ''Starting the task.'' [] [] beacon_test
                      ([] :: nat channel_log))"
  have h: "start_times ?s ''task-1'' = Some 1000"
    by (simp add: log_start_def beacon_test_def Let_def)
  have p: "prefix ?s = ''beacon-test''" "logger ?s = ''test_logger''"
    by (simp_all add: log_start_def beacon_test_def Let_def)
  have "snd (log_end fmt2f_test 1002 ''task-1'' ''Finished the task.'' [] [] ?s []) =
          [] @ [\<lparr>lc_channel = logger ?s, lc_method = Info,
                  lc_msg = ''['' @ prefix ?s @ ''] (BEACON - ['' @ ''task-1''
                           @ ''] - END (Elapsed time '' @ fmt2f_test (1002 - 1000) @ '' s)) ''
                           @ ''Finished the task.'' @ '' '',
                  lc_args = [], lc_kwargs = ([] :: (string \<times> nat) list)\<rparr>]"
    using log_end_present [OF h] by blast
  then show ?thesis using h p by (simp add: fmt2f_test_def)
qed

text \<open>
  C3. When \<open>key\<close> is not in the timer map, \<^verbatim>\<open>log_end\<close> returns with the instance
  unchanged after exactly two emissions, in this order: \<^verbatim>\<open>warning\<close> of the
  missing-start text, without arguments, then \<^verbatim>\<open>info\<close> of the END beacon whose
  elapsed time is the token \<^verbatim>\<open>N/A\<close>.
\<close>

theorem log_end_absent:
  assumes "start_times self key = None"
  shows "log_end fmt2f now key message args kwargs self out =
           (self,
            info (''(BEACON - ['' @ key @ ''] - END (Elapsed time N/A s)) '' @ message)
              args kwargs self
              (warning (''log_end called for key '' @ [CHR 0x27] @ key @ [CHR 0x27]
                        @ '' without a corresponding log_start.'') [] [] self out))
       \<and> snd (log_end fmt2f now key message args kwargs self out) =
           out @ [\<lparr>lc_channel = logger self, lc_method = Warning,
                    lc_msg = ''['' @ prefix self @ ''] log_end called for key '' @ [CHR 0x27]
                             @ key @ [CHR 0x27] @ '' without a corresponding log_start.'',
                    lc_args = [], lc_kwargs = []\<rparr>,
                  \<lparr>lc_channel = logger self, lc_method = Info,
                    lc_msg = ''['' @ prefix self @ ''] (BEACON - ['' @ key
                             @ ''] - END (Elapsed time N/A s)) '' @ message,
                    lc_args = args, lc_kwargs = kwargs\<rparr>]"
proof -
  have "(start_times self)(key := None) = start_times self"
    using assms by (simp add: fun_upd_idem)
  then show ?thesis using assms by (simp add: log_end_def emit_defs)
qed

theorem log_end_absent_witness:
  "start_times beacon_test ''dangling-task'' = None
   \<and> snd (log_end fmt2f_test 1002 ''dangling-task'' ''This task never started.'' [] []
            beacon_test []) =
       [\<lparr>lc_channel = ''test_logger'', lc_method = Warning,
         lc_msg = ''[beacon-test] log_end called for key 'dangling-task' without a corresponding log_start.'',
         lc_args = [], lc_kwargs = []\<rparr>,
        \<lparr>lc_channel = ''test_logger'', lc_method = Info,
         lc_msg = ''[beacon-test] (BEACON - [dangling-task] - END (Elapsed time N/A s)) This task never started.'',
         lc_args = [], lc_kwargs = ([] :: (string \<times> nat) list)\<rparr>]"
proof -
  have h: "start_times beacon_test ''dangling-task'' = None"
    by (simp add: beacon_test_def)
  have "snd (log_end fmt2f_test 1002 ''dangling-task'' ''This task never started.'' [] []
               beacon_test []) =
          [] @ [\<lparr>lc_channel = logger beacon_test, lc_method = Warning,
                  lc_msg = ''['' @ prefix beacon_test @ ''] log_end called for key ''
                           @ [CHR 0x27] @ ''dangling-task'' @ [CHR 0x27]
                           @ '' without a corresponding log_start.'',
                  lc_args = [], lc_kwargs = []\<rparr>,
                \<lparr>lc_channel = logger beacon_test, lc_method = Info,
                  lc_msg = ''['' @ prefix beacon_test @ ''] (BEACON - ['' @ ''dangling-task''
                           @ ''] - END (Elapsed time N/A s)) '' @ ''This task never started.'',
                  lc_args = [], lc_kwargs = ([] :: (string \<times> nat) list)\<rparr>]"
    using log_end_absent [OF h] by blast
  then show ?thesis using h by (simp add: beacon_test_def)
qed

text \<open>
  C5. Two calls of \<^verbatim>\<open>log_start\<close> for the same key without a \<^verbatim>\<open>log_end\<close> between
  them leave the second time under the key, and both emit \<^verbatim>\<open>info\<close> only; the
  \<^verbatim>\<open>log_end\<close> that follows emits one \<^verbatim>\<open>info\<close> END beacon whose elapsed time is
  taken against the second start, and no warning.
\<close>

theorem last_start_wins:
  "start_times (fst (log_start t2 k m2 a2 kw2 (fst (log_start t1 k m1 a1 kw1 self out))
                      (snd (log_start t1 k m1 a1 kw1 self out)))) k = Some t2
   \<and> snd (log_start t2 k m2 a2 kw2 (fst (log_start t1 k m1 a1 kw1 self out))
            (snd (log_start t1 k m1 a1 kw1 self out))) =
       out @ [\<lparr>lc_channel = logger self, lc_method = Info,
                lc_msg = ''['' @ prefix self @ ''] (BEACON - ['' @ k @ ''] - START) '' @ m1,
                lc_args = a1, lc_kwargs = kw1\<rparr>,
              \<lparr>lc_channel = logger self, lc_method = Info,
                lc_msg = ''['' @ prefix self @ ''] (BEACON - ['' @ k @ ''] - START) '' @ m2,
                lc_args = a2, lc_kwargs = kw2\<rparr>]
   \<and> snd (log_end fmt2f t3 k m3 a3 kw3
            (fst (log_start t2 k m2 a2 kw2 (fst (log_start t1 k m1 a1 kw1 self out))
                   (snd (log_start t1 k m1 a1 kw1 self out))))
            (snd (log_start t2 k m2 a2 kw2 (fst (log_start t1 k m1 a1 kw1 self out))
                   (snd (log_start t1 k m1 a1 kw1 self out))))) =
       out @ [\<lparr>lc_channel = logger self, lc_method = Info,
                lc_msg = ''['' @ prefix self @ ''] (BEACON - ['' @ k @ ''] - START) '' @ m1,
                lc_args = a1, lc_kwargs = kw1\<rparr>,
              \<lparr>lc_channel = logger self, lc_method = Info,
                lc_msg = ''['' @ prefix self @ ''] (BEACON - ['' @ k @ ''] - START) '' @ m2,
                lc_args = a2, lc_kwargs = kw2\<rparr>,
              \<lparr>lc_channel = logger self, lc_method = Info,
                lc_msg = ''['' @ prefix self @ ''] (BEACON - ['' @ k
                         @ ''] - END (Elapsed time '' @ fmt2f (t3 - t2) @ '' s)) '' @ m3 @ '' '',
                lc_args = a3, lc_kwargs = kw3\<rparr>]"
  by (simp add: log_start_def log_end_def Let_def emit_defs)

text \<open>
  C10. After \<^verbatim>\<open>log_end\<close> the key is not in the timer map, whether it was there before
  or not; a second \<^verbatim>\<open>log_end\<close> for the same key right after the first leaves the
  instance as it is and emits the warning followed by the END beacon with \<^verbatim>\<open>N/A\<close>.
\<close>

theorem log_end_removes_key:
  "start_times (fst (log_end fmt2f now k m args kwargs self out)) k = None
   \<and> log_end fmt2f now2 k m2 args2 kwargs2
        (fst (log_end fmt2f now k m args kwargs self out))
        (snd (log_end fmt2f now k m args kwargs self out)) =
       (fst (log_end fmt2f now k m args kwargs self out),
        snd (log_end fmt2f now k m args kwargs self out)
        @ [\<lparr>lc_channel = logger self, lc_method = Warning,
             lc_msg = ''['' @ prefix self @ ''] log_end called for key '' @ [CHR 0x27] @ k
                      @ [CHR 0x27] @ '' without a corresponding log_start.'',
             lc_args = [], lc_kwargs = []\<rparr>,
           \<lparr>lc_channel = logger self, lc_method = Info,
             lc_msg = ''['' @ prefix self @ ''] (BEACON - ['' @ k
                      @ ''] - END (Elapsed time N/A s)) '' @ m2,
             lc_args = args2, lc_kwargs = kwargs2\<rparr>])"
  by (cases "start_times self k") (simp_all add: log_end_def Let_def emit_defs)

section \<open>Changing the prefix\<close>

text \<open>
  C6. \<^verbatim>\<open>update_prefix\<close> sets the prefix to the given string, or to \<^verbatim>\<open>no-prefix\<close> when
  it is given \<^verbatim>\<open>None\<close> or the empty string, and leaves the bound channel and the timer
  map as they were. A record emitted before the call stays in what the channel has
  received, with the old prefix, and each of the six emissions after the call carries
  the new one.
\<close>

theorem update_prefix_frame:
  "prefix (update_prefix None self) = ''no-prefix''
   \<and> prefix (update_prefix (Some []) self) = ''no-prefix''
   \<and> prefix (update_prefix (Some (c # cs)) self) = c # cs
   \<and> logger (update_prefix p self) = logger self
   \<and> start_times (update_prefix p self) = start_times self
   \<and> info M args kwargs (update_prefix (Some (c # cs)) self) (info M0 args0 kwargs0 self out) =
       out @ [\<lparr>lc_channel = logger self, lc_method = Info,
                lc_msg = ''['' @ prefix self @ ''] '' @ M0,
                lc_args = args0, lc_kwargs = kwargs0\<rparr>,
              \<lparr>lc_channel = logger self, lc_method = Info,
                lc_msg = ''['' @ c # cs @ ''] '' @ M,
                lc_args = args, lc_kwargs = kwargs\<rparr>]
   \<and> format_message (update_prefix p self) M = ''['' @ or_no_prefix p @ ''] '' @ M
   \<and> debug M args kwargs (update_prefix p self) out =
       out @ [\<lparr>lc_channel = logger self, lc_method = Debug,
                lc_msg = ''['' @ or_no_prefix p @ ''] '' @ M, lc_args = args, lc_kwargs = kwargs\<rparr>]
   \<and> info M args kwargs (update_prefix p self) out =
       out @ [\<lparr>lc_channel = logger self, lc_method = Info,
                lc_msg = ''['' @ or_no_prefix p @ ''] '' @ M, lc_args = args, lc_kwargs = kwargs\<rparr>]
   \<and> warning M args kwargs (update_prefix p self) out =
       out @ [\<lparr>lc_channel = logger self, lc_method = Warning,
                lc_msg = ''['' @ or_no_prefix p @ ''] '' @ M, lc_args = args, lc_kwargs = kwargs\<rparr>]
   \<and> error M args kwargs (update_prefix p self) out =
       out @ [\<lparr>lc_channel = logger self, lc_method = Error,
                lc_msg = ''['' @ or_no_prefix p @ ''] '' @ M, lc_args = args, lc_kwargs = kwargs\<rparr>]
   \<and> critical M args kwargs (update_prefix p self) out =
       out @ [\<lparr>lc_channel = logger self, lc_method = Critical,
                lc_msg = ''['' @ or_no_prefix p @ ''] '' @ M, lc_args = args, lc_kwargs = kwargs\<rparr>]
   \<and> exception M args kwargs (update_prefix p self) out =
       out @ [\<lparr>lc_channel = logger self, lc_method = Exception,
                lc_msg = ''['' @ or_no_prefix p @ ''] '' @ M, lc_args = args, lc_kwargs = kwargs\<rparr>]"
  by (simp add: update_prefix_def or_no_prefix_def emit_defs)

section \<open>The initializer\<close>

text \<open>
  The two paths of \<^verbatim>\<open>setup_logging\<close>, and the fixtures evaluated.
\<close>

lemmas platform_defs = GOOGLE_CLOUD_LOGGING_AVAILABLE_def cloud_handler_try_def Client_def
  new_CloudLoggingHandler_def new_RotatingFileHandler_def

lemma setup_logging_configured:
  "logging_configured ps \<Longrightarrow>
   setup_logging pf n c e ps = Inr (n, ps\<lparr>logger_dict := insert n (logger_dict ps)\<rparr>)"
  by (simp add: setup_logging_def getLogger_def)

lemma setup_logging_first:
  "\<not> logging_configured ps \<Longrightarrow>
   setup_logging pf n c e ps =
     Inr (n, ps\<lparr>root_handlers :=
                   StreamHandler
                   # (if e \<and> import_gcl pf = Imported then
                        (case Client_raises pf of
                           Some x \<Rightarrow> []
                         | None \<Rightarrow>
                             (case CloudLoggingHandler_raises pf (or_name c n) of
                                Some x \<Rightarrow> []
                              | None \<Rightarrow> [CloudLoggingHandler (or_name c n)]))
                      else [])
                   @ (case RotatingFileHandler_raises pf (LOGGING_FILE_PATH pf) 104857600 5 of
                        Some x \<Rightarrow> []
                      | None \<Rightarrow> [RotatingFileHandler (LOGGING_FILE_PATH pf) 104857600 5]),
                 root_format := Some ''%(asctime)s - %(levelname)s - %(message)s'',
                 root_level := INFO,
                 logging_configured := True,
                 logger_dict := insert n (logger_dict ps),
                 stdout :=
                   stdout ps
                   @ (if e \<and> import_gcl pf = Imported then
                        (case Client_raises pf of
                           Some x \<Rightarrow>
                             [''Warning: Could not initialize Google Cloud Logging. ''
                              @ ''Functionality disabled: '' @ str x]
                         | None \<Rightarrow>
                             (case CloudLoggingHandler_raises pf (or_name c n) of
                                Some x \<Rightarrow>
                                  [''Warning: Could not initialize Google Cloud Logging. ''
                                   @ ''Functionality disabled: '' @ str x]
                              | None \<Rightarrow> []))
                      else if e then
                        [''Warning: Google Cloud Logging requested but library is not ''
                         @ ''available or failed to import.'']
                      else [])
                   @ (case RotatingFileHandler_raises pf (LOGGING_FILE_PATH pf) 104857600 5 of
                        Some x \<Rightarrow> [''Warning: Could not initialize file logging: '' @ str x]
                      | None \<Rightarrow> [])\<rparr>)"
  by (simp add: setup_logging_def getLogger_def basicConfig_def print_def platform_defs
      split: option.splits)


text \<open>
  C4. Every call of \<^verbatim>\<open>setup_logging\<close> returns the logger of the requested name and
  leaves the flag true. When the flag was true before, the handlers, the format, the
  level and the printed lines are those of before the call, whatever the arguments
  and the platform. When it was false, the state in which the flag is true has the
  assembled handlers, beginning with the console handler, the format and the level
  \<^verbatim>\<open>INFO\<close> applied.
\<close>

theorem setup_logging_one_shot:
  "\<exists>ps'. setup_logging pf n c e ps = Inr (n, ps') \<and> logging_configured ps'
      \<and> (logging_configured ps \<longrightarrow>
             root_handlers ps' = root_handlers ps \<and> root_format ps' = root_format ps
           \<and> root_level ps' = root_level ps \<and> stdout ps' = stdout ps)
      \<and> (\<not> logging_configured ps \<longrightarrow>
             (\<exists>hs. root_handlers ps' = StreamHandler # hs)
           \<and> root_format ps' = Some ''%(asctime)s - %(levelname)s - %(message)s''
           \<and> root_level ps' = INFO)"
proof (cases "logging_configured ps")
  case True
  then show ?thesis by (simp add: setup_logging_configured)
next
  case False
  then show ?thesis by (simp add: setup_logging_first)
qed

lemma module_load_test_platform:
  "module_load test_platform =
     \<lparr>logging_configured = False, root_handlers = [], root_format = None,
      root_level = WARNING, logger_dict = {},
      stdout = [''Warning: google-cloud-logging not installed. ''
                @ ''Google Cloud Logging functionality will be disabled.'']\<rparr>"
  by (simp add: module_load_def test_platform_def print_def)

lemma test_platform_fields:
  "LOGGING_FILE_PATH test_platform = ''logs.txt''"
  "import_gcl test_platform = ImportError"
  "RotatingFileHandler_raises test_platform f m b = None"
  by (simp_all add: LOGGING_FILE_PATH_def test_platform_def)

lemma configured_process_eq:
  "configured_process =
     \<lparr>logging_configured = True,
      root_handlers = [StreamHandler, RotatingFileHandler ''logs.txt'' 104857600 5],
      root_format = Some ''%(asctime)s - %(levelname)s - %(message)s'',
      root_level = INFO, logger_dict = {''first_config_logger''},
      stdout = [''Warning: google-cloud-logging not installed. ''
                @ ''Google Cloud Logging functionality will be disabled.'']\<rparr>"
  by (simp add: configured_process_def module_load_test_platform setup_logging_first
      test_platform_fields)

theorem setup_logging_one_shot_witness:
  "logging_configured configured_process
   \<and> (\<exists>ps'. setup_logging failing_platform ''second_config_logger'' (Some ''cloud'') True
               configured_process = Inr (''second_config_logger'', ps')
          \<and> root_handlers ps' = [StreamHandler, RotatingFileHandler ''logs.txt'' 104857600 5]
          \<and> root_format ps' = Some ''%(asctime)s - %(levelname)s - %(message)s''
          \<and> root_level ps' = INFO
          \<and> stdout ps' = stdout configured_process)
   \<and> \<not> logging_configured (module_load test_platform)
   \<and> (\<exists>ps'. setup_logging test_platform ''first_config_logger'' None False
               (module_load test_platform) = Inr (''first_config_logger'', ps')
          \<and> logging_configured ps'
          \<and> (\<exists>hs. root_handlers ps' = StreamHandler # hs)
          \<and> root_level ps' = INFO)"
proof -
  have a: "logging_configured configured_process"
    by (simp add: configured_process_eq)
  have b: "\<not> logging_configured (module_load test_platform)"
    by (simp add: module_load_test_platform)
  from setup_logging_one_shot
         [of failing_platform "''second_config_logger''" "Some ''cloud''" True configured_process]
  obtain ps' where
    "setup_logging failing_platform ''second_config_logger'' (Some ''cloud'') True
       configured_process = Inr (''second_config_logger'', ps')"
    "root_handlers ps' = root_handlers configured_process"
    "root_format ps' = root_format configured_process"
    "root_level ps' = root_level configured_process"
    "stdout ps' = stdout configured_process"
    using a by blast
  then have c: "\<exists>ps'. setup_logging failing_platform ''second_config_logger'' (Some ''cloud'') True
               configured_process = Inr (''second_config_logger'', ps')
          \<and> root_handlers ps' = [StreamHandler, RotatingFileHandler ''logs.txt'' 104857600 5]
          \<and> root_format ps' = Some ''%(asctime)s - %(levelname)s - %(message)s''
          \<and> root_level ps' = INFO
          \<and> stdout ps' = stdout configured_process"
    by (simp add: configured_process_eq)
  from setup_logging_one_shot
         [of test_platform "''first_config_logger''" None False "module_load test_platform"]
  have d: "\<exists>ps'. setup_logging test_platform ''first_config_logger'' None False
               (module_load test_platform) = Inr (''first_config_logger'', ps')
          \<and> logging_configured ps'
          \<and> (\<exists>hs. root_handlers ps' = StreamHandler # hs)
          \<and> root_level ps' = INFO"
    using b by blast
  from a b c d show ?thesis by blast
qed

text \<open>
  C9. Whatever the cloud client, the cloud handler and the file handler constructors do,
  \<^verbatim>\<open>setup_logging\<close> returns and does not raise. On the first call the handlers applied
  are the console handler, then the cloud handler when it was requested, the library
  is there and both constructors returned, then the file handler when its constructor
  returned; each sink that failed is left out and its warning is printed, in that order.
\<close>

theorem setup_logging_never_raises:
  "\<exists>ps'. setup_logging pf n c e ps = Inr (n, ps')
      \<and> (\<not> logging_configured ps \<longrightarrow>
             root_handlers ps' =
               StreamHandler
               # (if e \<and> import_gcl pf = Imported then
                    (case Client_raises pf of
                       Some x \<Rightarrow> []
                     | None \<Rightarrow>
                         (case CloudLoggingHandler_raises pf (or_name c n) of
                            Some x \<Rightarrow> []
                          | None \<Rightarrow> [CloudLoggingHandler (or_name c n)]))
                  else [])
               @ (case RotatingFileHandler_raises pf (LOGGING_FILE_PATH pf) 104857600 5 of
                    Some x \<Rightarrow> []
                  | None \<Rightarrow> [RotatingFileHandler (LOGGING_FILE_PATH pf) 104857600 5])
           \<and> stdout ps' =
               stdout ps
               @ (if e \<and> import_gcl pf = Imported then
                    (case Client_raises pf of
                       Some x \<Rightarrow>
                         [''Warning: Could not initialize Google Cloud Logging. ''
                          @ ''Functionality disabled: '' @ str x]
                     | None \<Rightarrow>
                         (case CloudLoggingHandler_raises pf (or_name c n) of
                            Some x \<Rightarrow>
                              [''Warning: Could not initialize Google Cloud Logging. ''
                               @ ''Functionality disabled: '' @ str x]
                          | None \<Rightarrow> []))
                  else if e then
                    [''Warning: Google Cloud Logging requested but library is not ''
                     @ ''available or failed to import.'']
                  else [])
               @ (case RotatingFileHandler_raises pf (LOGGING_FILE_PATH pf) 104857600 5 of
                    Some x \<Rightarrow> [''Warning: Could not initialize file logging: '' @ str x]
                  | None \<Rightarrow> []))"
proof (cases "logging_configured ps")
  case True
  then show ?thesis by (simp add: setup_logging_configured)
next
  case False
  then show ?thesis by (simp add: setup_logging_first)
qed

lemma module_load_failing_platform:
  "module_load failing_platform =
     \<lparr>logging_configured = False, root_handlers = [], root_format = None,
      root_level = WARNING, logger_dict = {}, stdout = []\<rparr>"
  by (simp add: module_load_def failing_platform_def)

theorem setup_logging_never_raises_witness:
  "\<not> logging_configured (module_load failing_platform)
   \<and> (\<exists>ps'. setup_logging failing_platform ''app'' None True (module_load failing_platform)
               = Inr (''app'', ps')
          \<and> root_handlers ps' = [StreamHandler]
          \<and> stdout ps' =
               [''Warning: Could not initialize Google Cloud Logging. ''
                @ ''Functionality disabled: no credentials'',
                ''Warning: Could not initialize file logging: Permission denied''])"
proof -
  have a: "\<not> logging_configured (module_load failing_platform)"
    by (simp add: module_load_failing_platform)
  have f: "import_gcl failing_platform = Imported"
    "Client_raises failing_platform = Some (PyException ''no credentials'')"
    "RotatingFileHandler_raises failing_platform (LOGGING_FILE_PATH failing_platform)
       104857600 5 = Some (PyException ''Permission denied'')"
    by (simp_all add: failing_platform_def)
  from setup_logging_never_raises
         [of failing_platform "''app''" None True "module_load failing_platform"]
  have "\<exists>ps'. setup_logging failing_platform ''app'' None True (module_load failing_platform)
               = Inr (''app'', ps')
          \<and> root_handlers ps' = [StreamHandler]
          \<and> stdout ps' =
               [''Warning: Could not initialize Google Cloud Logging. ''
                @ ''Functionality disabled: no credentials'',
                ''Warning: Could not initialize file logging: Permission denied'']"
    using a f by (simp add: module_load_failing_platform)
  with a show ?thesis by blast
qed

section \<open>Direct construction and the factory\<close>

lemma PrefixedLogger_process:
  "snd (PrefixedLogger n p ps :: 't prefixed_logger \<times> process) =
     ps\<lparr>logger_dict := insert n (logger_dict ps)\<rparr>"
  by (simp add: PrefixedLogger_def getLogger_def)

text \<open>
  C7, as stated, fails: on a fresh process, after \<^verbatim>\<open>PrefixedLogger("test_logger",
  "my-prefix")\<close> the flag is still false and the root logger has no handler.
\<close>

theorem direct_construction_counterexample:
  "\<not> logging_configured
       (snd (PrefixedLogger ''test_logger'' (Some ''my-prefix'') (module_load test_platform)
             :: int prefixed_logger \<times> process))
   \<and> root_handlers
       (snd (PrefixedLogger ''test_logger'' (Some ''my-prefix'') (module_load test_platform)
             :: int prefixed_logger \<times> process)) = []"
  by (simp add: PrefixedLogger_process module_load_test_platform)

text \<open>
  C7, amended. \<^verbatim>\<open>PrefixedLogger.__init__\<close> does not call \<^verbatim>\<open>setup_logging\<close>: it
  resolves the named logger and leaves the flag, the handlers, the format, the level
  and the printed lines as they were. The initializer runs in \<^verbatim>\<open>get_prefixed_logger\<close>,
  which returns with the flag true and, called on an unconfigured process without
  \<^verbatim>\<open>enable_gcloud_logging\<close>, with the console handler first and no cloud handler.
\<close>

theorem direct_construction_skips_setup:
  "logging_configured (snd (PrefixedLogger n p ps :: 't prefixed_logger \<times> process))
     = logging_configured ps
   \<and> root_handlers (snd (PrefixedLogger n p ps :: 't prefixed_logger \<times> process))
     = root_handlers ps
   \<and> root_format (snd (PrefixedLogger n p ps :: 't prefixed_logger \<times> process))
     = root_format ps
   \<and> root_level (snd (PrefixedLogger n p ps :: 't prefixed_logger \<times> process))
     = root_level ps
   \<and> stdout (snd (PrefixedLogger n p ps :: 't prefixed_logger \<times> process)) = stdout ps
   \<and> (\<exists>self ps'.
         (get_prefixed_logger pf n p c None ps
            :: py_exception + ('t prefixed_logger \<times> process)) = Inr (self, ps')
         \<and> logging_configured ps'
         \<and> (\<not> logging_configured ps \<longrightarrow>
               (\<exists>hs. root_handlers ps' = StreamHandler # hs)
             \<and> (\<forall>name. CloudLoggingHandler name \<notin> set (root_handlers ps'))))"
proof -
  have "\<exists>self ps'.
         (get_prefixed_logger pf n p c None ps
            :: py_exception + ('t prefixed_logger \<times> process)) = Inr (self, ps')
         \<and> logging_configured ps'
         \<and> (\<not> logging_configured ps \<longrightarrow>
               (\<exists>hs. root_handlers ps' = StreamHandler # hs)
             \<and> (\<forall>name. CloudLoggingHandler name \<notin> set (root_handlers ps')))"
  proof (cases "logging_configured ps")
    case True
    then show ?thesis
      by (simp add: get_prefixed_logger_def setup_logging_configured PrefixedLogger_def
          getLogger_def)
  next
    case False
    then show ?thesis
      by (simp add: get_prefixed_logger_def setup_logging_first PrefixedLogger_def
          getLogger_def split: option.splits)
  qed
  then show ?thesis by (simp add: PrefixedLogger_process)
qed

theorem direct_construction_skips_setup_witness:
  "\<not> logging_configured (module_load test_platform)
   \<and> \<not> logging_configured
         (snd (PrefixedLogger ''test_logger'' None (module_load test_platform)
               :: int prefixed_logger \<times> process))
   \<and> (\<exists>self ps'.
         (get_prefixed_logger test_platform ''test_logger'' None None None
            (module_load test_platform)
            :: py_exception + (int prefixed_logger \<times> process)) = Inr (self, ps')
         \<and> logging_configured ps'
         \<and> (\<exists>hs. root_handlers ps' = StreamHandler # hs)
         \<and> CloudLoggingHandler ''test_logger'' \<notin> set (root_handlers ps'))"
proof -
  have a: "\<not> logging_configured (module_load test_platform)"
    by (simp add: module_load_test_platform)
  note w = direct_construction_skips_setup
             [of "''test_logger''" None "module_load test_platform" test_platform None,
              where ?'t = int]
  from w have b: "\<not> logging_configured
         (snd (PrefixedLogger ''test_logger'' None (module_load test_platform)
               :: int prefixed_logger \<times> process))"
    using a by simp
  from w a have c: "\<exists>self ps'.
         (get_prefixed_logger test_platform ''test_logger'' None None None
            (module_load test_platform)
            :: py_exception + (int prefixed_logger \<times> process)) = Inr (self, ps')
         \<and> logging_configured ps'
         \<and> (\<exists>hs. root_handlers ps' = StreamHandler # hs)
         \<and> CloudLoggingHandler ''test_logger'' \<notin> set (root_handlers ps')"
    by blast
  from a b c show ?thesis by blast
qed

section \<open>The parameters of the file sink\<close>

text \<open>
  C8. \<^verbatim>\<open>setup_logging\<close> has the three parameters \<^verbatim>\<open>logger_name\<close>,
  \<^verbatim>\<open>cloud_logger_name\<close> and \<^verbatim>\<open>enable_gcloud_logging\<close> and no other. With the
  remaining arguments of \<^verbatim>\<open>test_setup_logging_with_custom_file_handler_params\<close> the
  file handler is built from \<^verbatim>\<open>LOGGING_FILE_PATH\<close>, 100 MiB and 5, not from the path,
  the 5 MiB and the 3 that the test supplies.
\<close>

theorem file_sink_parameters_fixed:
  "\<exists>ps'. setup_logging test_platform ''test_custom_logger'' None False
            (module_load test_platform) = Inr (''test_custom_logger'', ps')
      \<and> root_handlers ps' = [StreamHandler, RotatingFileHandler ''logs.txt'' 104857600 5]
      \<and> RotatingFileHandler ''custom_log.txt'' 5242880 3 \<notin> set (root_handlers ps')"
  by (simp add: module_load_test_platform setup_logging_first test_platform_fields)

end
